theory Spec2Isabelle
  imports Complex_Main "HOL-Library.AList"
begin

section \<open>JavaScript values\<close>

text \<open>
  A JavaScript number is an IEEE double. The code under study never does arithmetic on
  one: it only asks \<open>isNaN\<close> and \<open>< 0\<close>. A finite double is therefore kept as the
  rational it denotes, next to the three special values.
\<close>

datatype number = NaN | PosInf | NegInf | Fin rat

text \<open>
  The values that flow through the node: what \<open>JSON.parse\<close> returns, what the host hands
  over as a parameter and what the database client answers. An object is its list of
  own properties in insertion order.
\<close>

datatype jsvalue =
    JUndefined
  | JNull
  | JBool bool
  | JNum number
  | JStr string
  | JArr "jsvalue list"
  | JObj "(string \<times> jsvalue) list"

type_synonym obj = "(string \<times> jsvalue) list"

text \<open>
  What the code throws: \<open>NodeOperationError\<close> and \<open>Error\<close> are raised by the
  repository itself, \<open>TypeError\<close> by a property read on \<open>null\<close> or \<open>undefined\<close>,
  \<open>SyntaxError\<close> by \<open>JSON.parse\<close>. Each carries its \<open>message\<close>.
\<close>

datatype error =
    NodeOperationError string
  | Error string
  | TypeError string
  | SyntaxError string

fun message :: "error \<Rightarrow> string" where
  "message (NodeOperationError m) = m"
| "message (Error m) = m"
| "message (TypeError m) = m"
| "message (SyntaxError m) = m"

definition ebind :: "'e + 'a \<Rightarrow> ('a \<Rightarrow> 'e + 'b) \<Rightarrow> 'e + 'b" where
  "ebind m f = (case m of Inl e \<Rightarrow> Inl e | Inr x \<Rightarrow> f x)"

text \<open>
  The built-ins of the language that the code calls and that are not modelled here in
  full: \<open>JSON.parse(v)\<close>, which converts its argument to a string and parses it (\<open>Inl\<close>
  is the \<open>SyntaxError\<close> it throws), the conversion to a number of a string or an array,
  and the conversion to a string of a value that is not one.
\<close>

record runtime =
  JSON_parse :: "jsvalue \<Rightarrow> error + jsvalue"
  ToNumber :: "jsvalue \<Rightarrow> number"
  ToString :: "jsvalue \<Rightarrow> string"

text \<open>\<open>Number(v)\<close>.\<close>

definition Number_js :: "runtime \<Rightarrow> jsvalue \<Rightarrow> number" where
  "Number_js js v =
     (case v of
        JUndefined \<Rightarrow> NaN
      | JNull \<Rightarrow> Fin 0
      | JBool b \<Rightarrow> (if b then Fin 1 else Fin 0)
      | JNum n \<Rightarrow> n
      | JStr s \<Rightarrow> ToNumber js v
      | JArr xs \<Rightarrow> ToNumber js v
      | JObj kvs \<Rightarrow> NaN)"

text \<open>A value inside a template literal, \<open>`${v}`\<close>.\<close>

definition String_js :: "runtime \<Rightarrow> jsvalue \<Rightarrow> string" where
  "String_js js v = (case v of JStr s \<Rightarrow> s | _ \<Rightarrow> ToString js v)"

definition isNaN :: "number \<Rightarrow> bool" where
  "isNaN n = (n = NaN)"

text \<open>\<open>n < 0\<close> on numbers; every comparison with \<open>NaN\<close> is false.\<close>

definition negative :: "number \<Rightarrow> bool" where
  "negative n = (case n of NaN \<Rightarrow> False | PosInf \<Rightarrow> False | NegInf \<Rightarrow> True | Fin q \<Rightarrow> q < 0)"

text \<open>Truthiness, as \<open>if (v)\<close>, \<open>!v\<close>, \<open>v || w\<close> and \<open>Boolean(v)\<close> decide it.\<close>

definition truthy :: "jsvalue \<Rightarrow> bool" where
  "truthy v =
     (case v of
        JUndefined \<Rightarrow> False
      | JNull \<Rightarrow> False
      | JBool b \<Rightarrow> b
      | JNum n \<Rightarrow> n \<noteq> NaN \<and> n \<noteq> Fin 0
      | JStr s \<Rightarrow> s \<noteq> []
      | JArr xs \<Rightarrow> True
      | JObj kvs \<Rightarrow> True)"

text \<open>\<open>typeof v === 'object'\<close>: true of \<open>null\<close>, of arrays and of objects.\<close>

definition typeof_object :: "jsvalue \<Rightarrow> bool" where
  "typeof_object v =
     (case v of JNull \<Rightarrow> True | JArr xs \<Rightarrow> True | JObj kvs \<Rightarrow> True | _ \<Rightarrow> False)"

definition isArray :: "jsvalue \<Rightarrow> bool" where
  "isArray v = (case v of JArr xs \<Rightarrow> True | _ \<Rightarrow> False)"

definition quote :: "string \<Rightarrow> string" where
  "quote s = CHR 0x27 # s @ [CHR 0x27]"

text \<open>
  A property read \<open>v.k\<close>, for the keys the code reads (none of them is a built-in
  property of a string, an array or \<open>Object.prototype\<close>): a \<open>TypeError\<close> on \<open>null\<close> and
  \<open>undefined\<close>, the own property of an object, \<open>undefined\<close> where there is none.
\<close>

definition get_prop :: "jsvalue \<Rightarrow> string \<Rightarrow> error + jsvalue" where
  "get_prop v k =
     (case v of
        JUndefined \<Rightarrow>
          Inl (TypeError (''Cannot read properties of undefined (reading '' @ quote k @ '')''))
      | JNull \<Rightarrow>
          Inl (TypeError (''Cannot read properties of null (reading '' @ quote k @ '')''))
      | JObj kvs \<Rightarrow> (case map_of kvs k of None \<Rightarrow> Inr JUndefined | Some x \<Rightarrow> Inr x)
      | _ \<Rightarrow> Inr JUndefined)"

text \<open>
  An assignment \<open>o.k = x\<close>: an existing property keeps its place, a new one goes last.
\<close>

definition set_prop :: "obj \<Rightarrow> string \<Rightarrow> jsvalue \<Rightarrow> obj" where
  "set_prop kvs k x = AList.update k x kvs"

text \<open>\<open>parts.join(sep)\<close> on an array of strings.\<close>

fun join :: "string \<Rightarrow> string list \<Rightarrow> string" where
  "join sep [] = []"
| "join sep [s] = s"
| "join sep (s # t # ss) = s @ sep @ join sep (t # ss)"

text \<open>
  \<open>s.trim()\<close>: the white space of ECMAScript that fits a one-byte character (tab, line
  feed, vertical tab, form feed, carriage return, space, no-break space).
\<close>

definition is_space :: "char \<Rightarrow> bool" where
  "is_space c = (c \<in> set [CHR 0x09, CHR 0x0A, CHR 0x0B, CHR 0x0C, CHR 0x0D, CHR 0x20, CHR 0xA0])"

definition trim :: "string \<Rightarrow> string" where
  "trim s = rev (dropWhile is_space (rev (dropWhile is_space s)))"

section \<open>GenericFunctions: validators\<close>

text \<open>\<open>validateAstraCredentialsRaw\<close>: both fields present, truthy and strings; trimmed.\<close>

record IAstraDbCredentials =
  endpoint :: string
  token :: string

definition validateAstraCredentialsRaw :: "jsvalue \<Rightarrow> error + IAstraDbCredentials" where
  "validateAstraCredentialsRaw credentials =
     ebind (get_prop credentials ''endpoint'') (\<lambda>ep.
       case ep of
         JStr e \<Rightarrow>
           (if e = [] then Inl (Error ''Astra DB endpoint is required'')
            else ebind (get_prop credentials ''token'') (\<lambda>tk.
              case tk of
                JStr t \<Rightarrow>
                  (if t = [] then Inl (Error ''Astra DB token is required'')
                   else Inr \<lparr>endpoint = trim e, token = trim t\<rparr>)
              | _ \<Rightarrow> Inl (Error ''Astra DB token is required'')))
       | _ \<Rightarrow> Inl (Error ''Astra DB endpoint is required''))"

text \<open>The regular expression \<open>/^[a-zA-Z][a-zA-Z0-9_]*$/\<close>, tested on the whole string.\<close>

definition is_letter :: "char \<Rightarrow> bool" where
  "is_letter c =
     ((of_char c :: nat) \<in> set [65..<91] \<or> (of_char c :: nat) \<in> set [97..<123])"

definition is_word_char :: "char \<Rightarrow> bool" where
  "is_word_char c = (is_letter c \<or> (of_char c :: nat) \<in> set [48..<58] \<or> c = CHR ''_'')"

definition name_pattern :: "string \<Rightarrow> bool" where
  "name_pattern s = (case s of [] \<Rightarrow> False | c # cs \<Rightarrow> is_letter c \<and> list_all is_word_char cs)"

text \<open>
  \<open>validateKeyspaceCollectionName(node, name, type)\<close>: returns nothing, or throws. The
  three checks below are all it has; the first one (\<open>!name || typeof name !== 'string'\<close>)
  is why the name is a value here and not a string.
\<close>

definition validateKeyspaceCollectionName :: "jsvalue \<Rightarrow> string \<Rightarrow> error + unit" where
  "validateKeyspaceCollectionName name type =
     (case name of
        JStr s \<Rightarrow>
          (if s = [] then Inl (NodeOperationError (''Astra DB '' @ type @ '' name is required''))
           else
             let trimmedName = trim s in
             if trimmedName = [] then
               Inl (NodeOperationError (''Astra DB '' @ type @ '' name cannot be empty''))
             else if \<not> name_pattern trimmedName then
               Inl (NodeOperationError (''Invalid '' @ type @
                 '' name. Must start with a letter and contain only letters, numbers, and underscores''))
             else Inr ())
      | _ \<Rightarrow> Inl (NodeOperationError (''Astra DB '' @ type @ '' name is required'')))"

text \<open>\<open>validateQuery(node, query, fieldName)\<close>: the result has the two fields below.\<close>

record validation =
  isValid :: bool
  errors :: "string list"

definition validateQuery :: "jsvalue \<Rightarrow> string \<Rightarrow> validation" where
  "validateQuery query fieldName =
     (if query = JNull \<or> query = JUndefined then
        \<lparr>isValid = False, errors = [fieldName @ '' cannot be null or undefined'']\<rparr>
      else if \<not> typeof_object query then
        \<lparr>isValid = False, errors = [fieldName @ '' must be an object'']\<rparr>
      else if isArray query then
        \<lparr>isValid = False, errors = [fieldName @ '' cannot be an array'']\<rparr>
      else \<lparr>isValid = True, errors = []\<rparr>)"

section \<open>GenericFunctions: options, responses, sanitizing\<close>

text \<open>
  \<open>parseAstraOptions(node, options)\<close> builds the result object by assignments, one
  block of the source per step below, in the source's order.
\<close>

definition parseNonNegative ::
  "runtime \<Rightarrow> jsvalue \<Rightarrow> string \<Rightarrow> string \<Rightarrow> obj \<Rightarrow> error + obj" where
  "parseNonNegative js options key msg result =
     ebind (get_prop options key) (\<lambda>v.
       if v \<noteq> JUndefined then
         let n = Number_js js v in
         if isNaN n \<or> negative n then Inl (NodeOperationError msg)
         else Inr (set_prop result key (JNum n))
       else Inr result)"

definition parseJsonField ::
  "runtime \<Rightarrow> jsvalue \<Rightarrow> string \<Rightarrow> string \<Rightarrow> obj \<Rightarrow> error + obj" where
  "parseJsonField js options key msg result =
     ebind (get_prop options key) (\<lambda>v.
       if truthy v then
         (case v of
            JStr s \<Rightarrow>
              (case JSON_parse js v of
                 Inl e \<Rightarrow> Inl (NodeOperationError msg)
               | Inr parsed \<Rightarrow> Inr (set_prop result key parsed))
          | _ \<Rightarrow> Inr (set_prop result key v))
       else Inr result)"

definition parseAstraOptions :: "runtime \<Rightarrow> jsvalue \<Rightarrow> error + obj" where
  "parseAstraOptions js options =
     ebind (parseNonNegative js options ''limit'' ''Limit must be a non-negative number'' [])
       (\<lambda>r1.
     ebind (parseNonNegative js options ''skip'' ''Skip must be a non-negative number'' r1)
       (\<lambda>r2.
     ebind (parseJsonField js options ''sort'' ''Invalid sort format. Must be valid JSON'' r2)
       (\<lambda>r3.
     ebind (parseJsonField js options ''projection''
              ''Invalid projection format. Must be valid JSON'' r3)
       (\<lambda>r4.
     ebind (get_prop options ''upsert'') (\<lambda>u.
       let r5 = (if u \<noteq> JUndefined then set_prop r4 ''upsert'' (JBool (truthy u)) else r4) in
     ebind (get_prop options ''returnDocument'') (\<lambda>rd.
       Inr (if truthy rd then set_prop r5 ''returnDocument'' rd else r5)))))))"

text \<open>
  \<open>formatAstraResponse(result, operation)\<close>: the envelope starts with three properties;
  the \<open>switch\<close> then copies fields of the raw result, each a property read that throws
  on \<open>null\<close> and \<open>undefined\<close>.
\<close>

fun copyFields :: "jsvalue \<Rightarrow> string list \<Rightarrow> obj \<Rightarrow> error + obj" where
  "copyFields result [] response = Inr response"
| "copyFields result (k # ks) response =
     ebind (get_prop result k) (\<lambda>x. copyFields result ks (set_prop response k x))"

definition formatAstraResponse :: "jsvalue \<Rightarrow> string \<Rightarrow> error + jsvalue" where
  "formatAstraResponse result operation =
     (let response =
        [(''operation'', JStr operation), (''success'', JBool True), (''data'', result)]
      in
      if operation = ''insertOne'' then
        map_sum id JObj (copyFields result [''insertedId'', ''acknowledged''] response)
      else if operation = ''insertMany'' then
        map_sum id JObj
          (copyFields result [''insertedIds'', ''insertedCount'', ''acknowledged''] response)
      else if operation = ''updateMany'' then
        map_sum id JObj
          (copyFields result [''matchedCount'', ''modifiedCount'', ''acknowledged''] response)
      else if operation = ''delete'' then
        map_sum id JObj (copyFields result [''deletedCount'', ''acknowledged''] response)
      else if operation = ''findMany'' then Inr (JObj (set_prop response ''data'' result))
      else if operation = ''findOne'' then Inr (JObj (set_prop response ''document'' result))
      else if operation = ''findAndUpdate'' \<or> operation = ''findAndReplace''
              \<or> operation = ''findAndDelete'' then
        Inr (JObj (set_prop response ''document'' result))
      else if operation = ''estimatedDocumentCount'' then
        Inr (JObj (set_prop response ''count'' result))
      else Inr (JObj response))"

text \<open>\<open>sanitizeInput(data)\<close>, all of it: three cases and no traversal.\<close>

definition sanitizeInput :: "jsvalue \<Rightarrow> jsvalue" where
  "sanitizeInput data =
     (if data = JNull \<or> data = JUndefined then JObj []
      else if typeof_object data \<and> \<not> isArray data then data
      else JObj [(''data'', data)])"

section \<open>The database client\<close>

text \<open>
  The methods of the collection handle that the node calls, with their arguments. The
  handle answers a call with a value or throws; what it answers may depend on the calls
  issued before (the database is stateful), so a handle is a function of the history.
\<close>

datatype dbcall =
    InsertOne jsvalue
  | InsertMany jsvalue jsvalue
  | UpdateMany jsvalue jsvalue jsvalue
  | DeleteMany jsvalue
  | Find jsvalue jsvalue
  | FindOne jsvalue jsvalue
  | FindOneAndUpdate jsvalue jsvalue jsvalue
  | FindOneAndReplace jsvalue jsvalue jsvalue
  | FindOneAndDelete jsvalue jsvalue
  | EstimatedDocumentCount jsvalue

type_synonym collection = "dbcall list \<Rightarrow> dbcall \<Rightarrow> error + jsvalue"

text \<open>
  A computation that may call the database and may throw: it takes the history of the
  calls issued so far and returns its outcome with the history extended.
\<close>

type_synonym 'a action = "dbcall list \<Rightarrow> (error + 'a) \<times> dbcall list"

definition returnM :: "'a \<Rightarrow> 'a action" where
  "returnM x tr = (Inr x, tr)"

definition throwM :: "error \<Rightarrow> 'a action" where
  "throwM e tr = (Inl e, tr)"

definition lift :: "error + 'a \<Rightarrow> 'a action" where
  "lift r tr = (r, tr)"

definition bindM :: "'a action \<Rightarrow> ('a \<Rightarrow> 'b action) \<Rightarrow> 'b action" where
  "bindM m f tr = (case m tr of (Inl e, tr') \<Rightarrow> (Inl e, tr') | (Inr x, tr') \<Rightarrow> f x tr')"

definition catchM :: "'a action \<Rightarrow> (error \<Rightarrow> 'a action) \<Rightarrow> 'a action" where
  "catchM m h tr = (case m tr of (Inl e, tr') \<Rightarrow> h e tr' | (Inr x, tr') \<Rightarrow> (Inr x, tr'))"

definition call :: "collection \<Rightarrow> dbcall \<Rightarrow> jsvalue action" where
  "call coll c tr = (coll tr c, tr @ [c])"

text \<open>
  The ten functions of GenericFunctions that talk to the client share one body:
  \<open>try { const result = await collection.m(...); return formatAstraResponse(result, op) }
  catch (error) { throw new NodeOperationError(node, `<failure>: ${error.message}`) }\<close>.
\<close>

definition clientCall :: "collection \<Rightarrow> dbcall \<Rightarrow> string \<Rightarrow> string \<Rightarrow> jsvalue action" where
  "clientCall coll c operation failure =
     catchM (bindM (call coll c) (\<lambda>result. lift (formatAstraResponse result operation)))
       (\<lambda>error. throwM (NodeOperationError (failure @ message error)))"

definition insertOneDocument :: "collection \<Rightarrow> jsvalue \<Rightarrow> jsvalue action" where
  "insertOneDocument coll document =
     clientCall coll (InsertOne document) ''insertOne'' ''Failed to insert document: ''"

definition insertManyDocuments :: "collection \<Rightarrow> jsvalue \<Rightarrow> obj \<Rightarrow> jsvalue action" where
  "insertManyDocuments coll documents options =
     clientCall coll (InsertMany documents (JObj options)) ''insertMany''
       ''Failed to insert documents: ''"

definition updateDocuments :: "collection \<Rightarrow> jsvalue \<Rightarrow> jsvalue \<Rightarrow> obj \<Rightarrow> jsvalue action" where
  "updateDocuments coll filter' update options =
     clientCall coll (UpdateMany filter' update (JObj options)) ''updateMany''
       ''Failed to update documents: ''"

definition deleteDocuments :: "collection \<Rightarrow> jsvalue \<Rightarrow> jsvalue action" where
  "deleteDocuments coll filter' =
     clientCall coll (DeleteMany filter') ''delete'' ''Failed to delete documents: ''"

definition findDocuments :: "collection \<Rightarrow> jsvalue \<Rightarrow> obj \<Rightarrow> jsvalue action" where
  "findDocuments coll filter' options =
     clientCall coll (Find filter' (JObj options)) ''findMany'' ''Failed to find documents: ''"

definition findOneDocument :: "collection \<Rightarrow> jsvalue \<Rightarrow> obj \<Rightarrow> jsvalue action" where
  "findOneDocument coll filter' options =
     clientCall coll (FindOne filter' (JObj options)) ''findOne'' ''Failed to find document: ''"

definition findAndUpdateDocument ::
  "collection \<Rightarrow> jsvalue \<Rightarrow> jsvalue \<Rightarrow> obj \<Rightarrow> jsvalue action" where
  "findAndUpdateDocument coll filter' update options =
     clientCall coll (FindOneAndUpdate filter' update (JObj options)) ''findAndUpdate''
       ''Failed to find and update document: ''"

definition findAndReplaceDocument ::
  "collection \<Rightarrow> jsvalue \<Rightarrow> jsvalue \<Rightarrow> obj \<Rightarrow> jsvalue action" where
  "findAndReplaceDocument coll filter' replacement options =
     clientCall coll (FindOneAndReplace filter' replacement (JObj options)) ''findAndReplace''
       ''Failed to find and replace document: ''"

definition findAndDeleteDocument :: "collection \<Rightarrow> jsvalue \<Rightarrow> obj \<Rightarrow> jsvalue action" where
  "findAndDeleteDocument coll filter' options =
     clientCall coll (FindOneAndDelete filter' (JObj options)) ''findAndDelete''
       ''Failed to find and delete document: ''"

definition estimatedDocumentCount :: "collection \<Rightarrow> obj \<Rightarrow> jsvalue action" where
  "estimatedDocumentCount coll options =
     clientCall coll (EstimatedDocumentCount (JObj options)) ''estimatedDocumentCount''
       ''Failed to get document count: ''"

section \<open>The node: per-item handlers\<close>

text \<open>
  What the node takes from the host (\<open>this: IExecuteFunctions\<close>): the credentials, the
  input items, the parameters by name and item index (a getter that may throw, and that
  resolves the fallback value of \<open>options\<close> itself) and the continue-on-fail switch.
\<close>

record host =
  getCredentials :: "error + jsvalue"
  getInputData :: "jsvalue list"
  getNodeParameter :: "string \<Rightarrow> nat \<Rightarrow> error + jsvalue"
  continueOnFail :: bool

text \<open>\<open>JSON.parse(getNodeParameter(name, itemIndex) as string)\<close>.\<close>

definition jsonParameter :: "runtime \<Rightarrow> host \<Rightarrow> string \<Rightarrow> nat \<Rightarrow> jsvalue action" where
  "jsonParameter js h name itemIndex =
     lift (ebind (getNodeParameter h name itemIndex) (JSON_parse js))"

text \<open>\<open>parseAstraOptions(node, getNodeParameter('options', itemIndex, {}))\<close>.\<close>

definition optionsParameter :: "runtime \<Rightarrow> host \<Rightarrow> nat \<Rightarrow> obj action" where
  "optionsParameter js h itemIndex =
     lift (ebind (getNodeParameter h ''options'' itemIndex) (parseAstraOptions js))"

text \<open>
  \<open>const validation = validateQuery(node, q, name); if (!validation.isValid) throw new
  NodeOperationError(node, `Invalid <name>: ${validation.errors.join(', ')}`)\<close>.
\<close>

definition requireValid :: "jsvalue \<Rightarrow> string \<Rightarrow> unit action" where
  "requireValid query fieldName =
     (let validation = validateQuery query fieldName in
      if \<not> isValid validation then
        throwM (NodeOperationError
          (''Invalid '' @ fieldName @ '': '' @ join '', '' (errors validation)))
      else returnM ())"

definition handleInsertOne :: "runtime \<Rightarrow> host \<Rightarrow> collection \<Rightarrow> nat \<Rightarrow> jsvalue action" where
  "handleInsertOne js h coll itemIndex =
     bindM (jsonParameter js h ''document'' itemIndex) (\<lambda>document.
     insertOneDocument coll document)"

definition handleInsertMany :: "runtime \<Rightarrow> host \<Rightarrow> collection \<Rightarrow> nat \<Rightarrow> jsvalue action" where
  "handleInsertMany js h coll itemIndex =
     bindM (jsonParameter js h ''documents'' itemIndex) (\<lambda>documents.
     bindM (optionsParameter js h itemIndex) (\<lambda>options.
     insertManyDocuments coll documents options))"

definition handleFindMany :: "runtime \<Rightarrow> host \<Rightarrow> collection \<Rightarrow> nat \<Rightarrow> jsvalue action" where
  "handleFindMany js h coll itemIndex =
     bindM (jsonParameter js h ''filter'' itemIndex) (\<lambda>filter'.
     bindM (optionsParameter js h itemIndex) (\<lambda>options.
     bindM (requireValid filter' ''filter'') (\<lambda>u.
     findDocuments coll filter' options)))"

definition handleFindOne :: "runtime \<Rightarrow> host \<Rightarrow> collection \<Rightarrow> nat \<Rightarrow> jsvalue action" where
  "handleFindOne js h coll itemIndex =
     bindM (jsonParameter js h ''filter'' itemIndex) (\<lambda>filter'.
     bindM (optionsParameter js h itemIndex) (\<lambda>options.
     bindM (requireValid filter' ''filter'') (\<lambda>u.
     bindM (findOneDocument coll filter' options) (\<lambda>result.
     returnM (if truthy result then result else JObj [])))))"

definition handleUpdateMany :: "runtime \<Rightarrow> host \<Rightarrow> collection \<Rightarrow> nat \<Rightarrow> jsvalue action" where
  "handleUpdateMany js h coll itemIndex =
     bindM (jsonParameter js h ''filter'' itemIndex) (\<lambda>filter'.
     bindM (jsonParameter js h ''update'' itemIndex) (\<lambda>update.
     bindM (optionsParameter js h itemIndex) (\<lambda>options.
     bindM (requireValid filter' ''filter'') (\<lambda>u.
     bindM (requireValid update ''update'') (\<lambda>u.
     updateDocuments coll filter' update options)))))"

definition handleDelete :: "runtime \<Rightarrow> host \<Rightarrow> collection \<Rightarrow> nat \<Rightarrow> jsvalue action" where
  "handleDelete js h coll itemIndex =
     bindM (jsonParameter js h ''filter'' itemIndex) (\<lambda>filter'.
     bindM (requireValid filter' ''filter'') (\<lambda>u.
     deleteDocuments coll filter'))"

definition handleFindAndUpdate :: "runtime \<Rightarrow> host \<Rightarrow> collection \<Rightarrow> nat \<Rightarrow> jsvalue action" where
  "handleFindAndUpdate js h coll itemIndex =
     bindM (jsonParameter js h ''filter'' itemIndex) (\<lambda>filter'.
     bindM (jsonParameter js h ''update'' itemIndex) (\<lambda>update.
     bindM (optionsParameter js h itemIndex) (\<lambda>options.
     bindM (requireValid filter' ''filter'') (\<lambda>u.
     bindM (requireValid update ''update'') (\<lambda>u.
     findAndUpdateDocument coll filter' update options)))))"

definition handleFindAndReplace :: "runtime \<Rightarrow> host \<Rightarrow> collection \<Rightarrow> nat \<Rightarrow> jsvalue action" where
  "handleFindAndReplace js h coll itemIndex =
     bindM (jsonParameter js h ''filter'' itemIndex) (\<lambda>filter'.
     bindM (jsonParameter js h ''replacement'' itemIndex) (\<lambda>replacement.
     bindM (optionsParameter js h itemIndex) (\<lambda>options.
     bindM (requireValid filter' ''filter'') (\<lambda>u.
     bindM (requireValid replacement ''replacement'') (\<lambda>u.
     findAndReplaceDocument coll filter' replacement options)))))"

definition handleFindAndDelete :: "runtime \<Rightarrow> host \<Rightarrow> collection \<Rightarrow> nat \<Rightarrow> jsvalue action" where
  "handleFindAndDelete js h coll itemIndex =
     bindM (jsonParameter js h ''filter'' itemIndex) (\<lambda>filter'.
     bindM (optionsParameter js h itemIndex) (\<lambda>options.
     bindM (requireValid filter' ''filter'') (\<lambda>u.
     findAndDeleteDocument coll filter' options)))"

definition handleEstimatedDocumentCount ::
  "runtime \<Rightarrow> host \<Rightarrow> collection \<Rightarrow> nat \<Rightarrow> jsvalue action" where
  "handleEstimatedDocumentCount js h coll itemIndex =
     bindM (optionsParameter js h itemIndex) (\<lambda>options.
     estimatedDocumentCount coll options)"

section \<open>The node: execute\<close>

text \<open>
  An output record and its link to the input item. \<open>generatePairedItemData\<close> links with
  \<open>{item, input}\<close>; the outermost \<open>catch\<close> of \<open>execute\<close> links with the array
  \<open>[{item: 0}]\<close>. \<open>Unlinked\<close> is a \<open>pairedItem\<close> that is \<open>undefined\<close>, which is what an
  index outside \<open>fallbackPairedItems\<close> would read.
\<close>

record pairedItemData =
  item :: nat
  input :: "nat option"

datatype pairing = Unlinked | Single pairedItemData | Several "pairedItemData list"

record execData =
  json :: jsvalue
  pairedItem :: pairing

definition generatePairedItemData :: "nat \<Rightarrow> nat \<Rightarrow> pairedItemData list" where
  "generatePairedItemData len inputIndex =
     map (\<lambda>index. \<lparr>item = index, input = Some inputIndex\<rparr>) [0..<len]"

definition pairedAt :: "pairedItemData list \<Rightarrow> nat \<Rightarrow> pairing" where
  "pairedAt fallbackPairedItems i =
     (if i < length fallbackPairedItems then Single (fallbackPairedItems ! i) else Unlinked)"

text \<open>The \<open>switch (operation)\<close> of the loop body.\<close>

definition dispatch :: "runtime \<Rightarrow> host \<Rightarrow> collection \<Rightarrow> jsvalue \<Rightarrow> nat \<Rightarrow> jsvalue action" where
  "dispatch js h coll operation i =
     (if operation = JStr ''insertOne'' then handleInsertOne js h coll i
      else if operation = JStr ''insertMany'' then handleInsertMany js h coll i
      else if operation = JStr ''findMany'' then handleFindMany js h coll i
      else if operation = JStr ''findOne'' then handleFindOne js h coll i
      else if operation = JStr ''updateMany'' then handleUpdateMany js h coll i
      else if operation = JStr ''delete'' then handleDelete js h coll i
      else if operation = JStr ''findAndUpdate'' then handleFindAndUpdate js h coll i
      else if operation = JStr ''findAndReplace'' then handleFindAndReplace js h coll i
      else if operation = JStr ''findAndDelete'' then handleFindAndDelete js h coll i
      else if operation = JStr ''estimatedDocumentCount'' then
        handleEstimatedDocumentCount js h coll i
      else throwM (NodeOperationError (''Unknown operation: '' @ String_js js operation)))"

text \<open>
  What the loop body pushes after the handler has returned: for \<open>findMany\<close> the
  documents of \<open>result.documents || result\<close>, one record each when that is an array and
  one record otherwise; for any other operation one record holding
  \<open>formatAstraResponse(result, operation)\<close> (the operation is a string there, or the
  \<open>switch\<close> would have thrown). Nothing between the first push and the last can throw, so
  the records are returned together.
\<close>

definition pushResult :: "runtime \<Rightarrow> jsvalue \<Rightarrow> pairing \<Rightarrow> jsvalue \<Rightarrow> error + execData list" where
  "pushResult js operation paired result =
     (if operation = JStr ''findMany'' then
        ebind (get_prop result ''documents'') (\<lambda>d.
          let documents = (if truthy d then d else result) in
          Inr (case documents of
                 JArr docs \<Rightarrow>
                   map (\<lambda>document. \<lparr>json = sanitizeInput document, pairedItem = paired\<rparr>) docs
               | _ \<Rightarrow> [\<lparr>json = sanitizeInput documents, pairedItem = paired\<rparr>]))
      else
        ebind (formatAstraResponse result (String_js js operation)) (\<lambda>envelope.
          Inr [\<lparr>json = envelope, pairedItem = paired\<rparr>]))"

definition processItem ::
  "runtime \<Rightarrow> host \<Rightarrow> collection \<Rightarrow> jsvalue \<Rightarrow> pairedItemData list \<Rightarrow> nat
     \<Rightarrow> execData list action" where
  "processItem js h coll operation fallbackPairedItems i =
     bindM (dispatch js h coll operation i) (\<lambda>result.
     lift (pushResult js operation (pairedAt fallbackPairedItems i) result))"

definition errorItem :: "error \<Rightarrow> pairing \<Rightarrow> execData" where
  "errorItem error paired =
     \<lparr>json = JObj [(''error'', JStr (message error))], pairedItem = paired\<rparr>"

text \<open>
  The \<open>for\<close> loop with its inner \<open>try\<close>/\<open>catch\<close>, over the indices still to do. It returns
  the error that left the loop, if one did, with \<open>returnData\<close> and the call history as
  they were at that moment.
\<close>

fun itemLoop ::
  "runtime \<Rightarrow> host \<Rightarrow> collection \<Rightarrow> jsvalue \<Rightarrow> pairedItemData list \<Rightarrow> nat list
     \<Rightarrow> execData list \<Rightarrow> dbcall list \<Rightarrow> error option \<times> execData list \<times> dbcall list" where
  "itemLoop js h coll operation fb [] returnData tr = (None, returnData, tr)"
| "itemLoop js h coll operation fb (i # rest) returnData tr =
     (case processItem js h coll operation fb i tr of
        (Inr records, tr') \<Rightarrow> itemLoop js h coll operation fb rest (returnData @ records) tr'
      | (Inl error, tr') \<Rightarrow>
          if continueOnFail h then
            itemLoop js h coll operation fb rest
              (returnData @ [errorItem error (pairedAt fb i)]) tr'
          else (Some error, returnData, tr'))"

text \<open>
  The client library: the constructor \<open>new DataAPIClient(token)\<close>, and
  \<open>client.db(endpoint, {keyspace}).collection(name)\<close>, which builds the handle. Either
  may throw.
\<close>

record sdk =
  DataAPIClient :: "string \<Rightarrow> error + unit"
  collectionHandle :: "string \<Rightarrow> jsvalue \<Rightarrow> jsvalue \<Rightarrow> error + collection"

definition connectAstraClient :: "sdk \<Rightarrow> IAstraDbCredentials \<Rightarrow> error + unit" where
  "connectAstraClient s credentials =
     (case DataAPIClient s (token credentials) of
        Inl error \<Rightarrow> Inl (Error (''Failed to connect to Astra DB: '' @ message error))
      | Inr client \<Rightarrow> Inr client)"

text \<open>The head of the outer \<open>try\<close> block, up to the collection handle.\<close>

definition openCollection ::
  "host \<Rightarrow> sdk \<Rightarrow> IAstraDbCredentials \<Rightarrow> error + (jsvalue \<times> collection)" where
  "openCollection h s validatedCredentials =
     ebind (getNodeParameter h ''operation'' 0) (\<lambda>operation.
     ebind (getNodeParameter h ''collection'' 0) (\<lambda>collection.
     ebind (getNodeParameter h ''keyspace'' 0) (\<lambda>keyspace.
     ebind (validateKeyspaceCollectionName keyspace ''keyspace'') (\<lambda>u.
     ebind (validateKeyspaceCollectionName collection ''collection'') (\<lambda>u.
     ebind (collectionHandle s (endpoint validatedCredentials) keyspace collection)
       (\<lambda>collectionObj.
     Inr (operation, collectionObj)))))))"

definition tryBlock ::
  "runtime \<Rightarrow> host \<Rightarrow> sdk \<Rightarrow> IAstraDbCredentials \<Rightarrow> dbcall list
     \<Rightarrow> error option \<times> execData list \<times> dbcall list" where
  "tryBlock js h s validatedCredentials tr =
     (case openCollection h s validatedCredentials of
        Inl error \<Rightarrow> (Some error, [], tr)
      | Inr (operation, collectionObj) \<Rightarrow>
          let itemsLength = length (getInputData h);
              fallbackPairedItems = generatePairedItemData itemsLength 0
          in itemLoop js h collectionObj operation fallbackPairedItems [0..<itemsLength] [] tr)"

text \<open>
  \<open>execute\<close>: it returns \<open>[returnData]\<close> or throws. An error of the credentials or of the
  constructor is thrown before the \<open>try\<close>; an error that leaves the \<open>try\<close> block is
  turned into a last record when continue-on-fail is on and is thrown again otherwise.
\<close>

definition execute ::
  "runtime \<Rightarrow> host \<Rightarrow> sdk \<Rightarrow> dbcall list \<Rightarrow> (error + execData list list) \<times> dbcall list" where
  "execute js h s tr =
     (case ebind (getCredentials h) validateAstraCredentialsRaw of
        Inl error \<Rightarrow> (Inl error, tr)
      | Inr validatedCredentials \<Rightarrow>
          (case connectAstraClient s validatedCredentials of
             Inl error \<Rightarrow> (Inl error, tr)
           | Inr client \<Rightarrow>
               (case tryBlock js h s validatedCredentials tr of
                  (None, returnData, tr') \<Rightarrow> (Inr [returnData], tr')
                | (Some error, returnData, tr') \<Rightarrow>
                    if continueOnFail h then
                      (Inr [returnData @
                         [errorItem error (Several [\<lparr>item = 0, input = None\<rparr>])]], tr')
                    else (Inl error, tr'))))"

section \<open>Predicates of the statements\<close>

text \<open>A raw result on which a property read throws.\<close>

definition nullish :: "jsvalue \<Rightarrow> bool" where
  "nullish v = (v = JNull \<or> v = JUndefined)"

text \<open>The operations for which \<open>formatAstraResponse\<close> reads fields of the raw result.\<close>

definition readsResultFields :: "string \<Rightarrow> bool" where
  "readsResultFields operation =
     (operation \<in> set [''insertOne'', ''insertMany'', ''updateMany'', ''delete''])"

text \<open>
  The local validation steps of an item, read off the handlers: the parameters a handler
  passes to \<open>JSON.parse\<close>, whether it parses \<open>options\<close>, and the parameters it passes
  to \<open>validateQuery\<close>. A step fails when the host delivers the parameter and the step
  rejects it.
\<close>

definition parseFails :: "runtime \<Rightarrow> host \<Rightarrow> string \<Rightarrow> nat \<Rightarrow> bool" where
  "parseFails js h name i =
     (case getNodeParameter h name i of Inl e \<Rightarrow> False | Inr v \<Rightarrow> isl (JSON_parse js v))"

definition optionsFail :: "runtime \<Rightarrow> host \<Rightarrow> nat \<Rightarrow> bool" where
  "optionsFail js h i =
     (case getNodeParameter h ''options'' i of
        Inl e \<Rightarrow> False
      | Inr v \<Rightarrow> isl (parseAstraOptions js v))"

definition queryRejected :: "runtime \<Rightarrow> host \<Rightarrow> string \<Rightarrow> nat \<Rightarrow> bool" where
  "queryRejected js h name i =
     (case getNodeParameter h name i of
        Inl e \<Rightarrow> False
      | Inr v \<Rightarrow>
          (case JSON_parse js v of
             Inl e \<Rightarrow> False
           | Inr q \<Rightarrow> \<not> isValid (validateQuery q name)))"

definition jsonParameters :: "string \<Rightarrow> string list" where
  "jsonParameters operation =
     (if operation = ''insertOne'' then [''document'']
      else if operation = ''insertMany'' then [''documents'']
      else if operation = ''updateMany'' \<or> operation = ''findAndUpdate'' then
        [''filter'', ''update'']
      else if operation = ''findAndReplace'' then [''filter'', ''replacement'']
      else if operation = ''findMany'' \<or> operation = ''findOne'' \<or> operation = ''delete''
              \<or> operation = ''findAndDelete'' then [''filter'']
      else [])"

definition takesOptions :: "string \<Rightarrow> bool" where
  "takesOptions operation =
     (operation \<in> set [''insertMany'', ''findMany'', ''findOne'', ''updateMany'',
        ''findAndUpdate'', ''findAndReplace'', ''findAndDelete'', ''estimatedDocumentCount''])"

definition validatedParameters :: "string \<Rightarrow> string list" where
  "validatedParameters operation =
     (if operation = ''updateMany'' \<or> operation = ''findAndUpdate'' then [''filter'', ''update'']
      else if operation = ''findAndReplace'' then [''filter'', ''replacement'']
      else if operation = ''findMany'' \<or> operation = ''findOne'' \<or> operation = ''delete''
              \<or> operation = ''findAndDelete'' then [''filter'']
      else [])"

definition localValidationFails :: "runtime \<Rightarrow> host \<Rightarrow> string \<Rightarrow> nat \<Rightarrow> bool" where
  "localValidationFails js h operation i =
     (list_ex (\<lambda>name. parseFails js h name i) (jsonParameters operation)
      \<or> (takesOptions operation \<and> optionsFail js h i)
      \<or> list_ex (\<lambda>name. queryRejected js h name i) (validatedParameters operation))"

section \<open>Sample inputs\<close>

text \<open>
  A runtime whose \<open>JSON.parse\<close> knows the two texts the examples use, \<open>{}\<close> and \<open>[]\<close>,
  and throws on anything else; its two conversions are never reached in the examples.
\<close>

definition sampleRuntime :: runtime where
  "sampleRuntime =
     \<lparr>JSON_parse = (\<lambda>v. if v = JStr ''{}'' then Inr (JObj [])
                        else if v = JStr ''[]'' then Inr (JArr [])
                        else Inl (SyntaxError ''Unexpected token'')),
      ToNumber = (\<lambda>v. NaN),
      ToString = (\<lambda>v. [])\<rparr>"

text \<open>
  A host with valid credentials, keyspace and collection, one input item per filter
  text, and no options set.
\<close>

definition sampleHost :: "string \<Rightarrow> string list \<Rightarrow> bool \<Rightarrow> host" where
  "sampleHost operation filters cof =
     \<lparr>getCredentials =
        Inr (JObj [(''endpoint'', JStr ''https://db.example.com''),
                   (''token'', JStr ''AstraCS:secret'')]),
      getInputData = map (\<lambda>f. JObj []) filters,
      getNodeParameter = (\<lambda>name i.
        if name = ''operation'' then Inr (JStr operation)
        else if name = ''collection'' then Inr (JStr ''users'')
        else if name = ''keyspace'' then Inr (JStr ''default_keyspace'')
        else if name = ''options'' then Inr (JObj [])
        else if name = ''filter'' \<and> i < length filters then Inr (JStr (filters ! i))
        else Inl (Error ''Could not get parameter'')),
      continueOnFail = cof\<rparr>"

text \<open>A client library that hands out a given collection handle.\<close>

definition sampleSdk :: "collection \<Rightarrow> sdk" where
  "sampleSdk coll = \<lparr>DataAPIClient = (\<lambda>t. Inr ()), collectionHandle = (\<lambda>e k c. Inr coll)\<rparr>"

text \<open>A collection handle that answers every call with the same value.\<close>

definition answering :: "jsvalue \<Rightarrow> collection" where
  "answering r = (\<lambda>tr c. Inr r)"


text \<open>
  What \<open>findOneDocument\<close> returns when the client's \<open>findOne\<close> answers \<open>null\<close>, and
  what \<open>execute\<close> then puts into the output record.
\<close>

definition noMatchEnvelope :: jsvalue where
  "noMatchEnvelope =
     JObj [(''operation'', JStr ''findOne''), (''success'', JBool True), (''data'', JNull),
           (''document'', JNull)]"

definition noMatchBody :: jsvalue where
  "noMatchBody =
     JObj [(''operation'', JStr ''findOne''), (''success'', JBool True),
           (''data'', noMatchEnvelope), (''document'', noMatchEnvelope)]"

section \<open>Properties of the validators, the option parser and the formatter\<close>

subsection \<open>What the code checks\<close>

text \<open>
  The query validator looks at the root only: every object is valid, with no message,
  and everything else is invalid.
\<close>

lemma validateQuery_rejects_other_roots:
  "\<not> (\<exists>kvs. query = JObj kvs) \<Longrightarrow> \<not> isValid (validateQuery query fieldName)"
  by (cases query) (simp_all add: validateQuery_def typeof_object_def isArray_def)

lemma validateQuery_accepts_every_object:
  "validateQuery (JObj kvs) fieldName = \<lparr>isValid = True, errors = []\<rparr>"
  by (simp add: validateQuery_def typeof_object_def isArray_def)

text \<open>A name passes exactly when its trimmed form matches the pattern.\<close>

lemma validateKeyspaceCollectionName_passes_iff:
  "(validateKeyspaceCollectionName (JStr s) type = Inr ()) = name_pattern (trim s)"
proof -
  have np: "\<not> name_pattern []"
    by (simp add: name_pattern_def)
  have t: "trim [] = []"
    by (simp add: trim_def)
  show ?thesis
    using np t
    by (cases "s = []"; cases "trim s = []")
      (simp_all add: validateKeyspaceCollectionName_def Let_def)
qed

text \<open>A numeric limit is refused exactly when it is negative.\<close>

lemma parseAstraOptions_limit_check:
  "parseAstraOptions js (JObj [(''limit'', JNum (Fin q))]) =
     (if q < 0 then Inl (NodeOperationError ''Limit must be a non-negative number'')
      else Inr [(''limit'', JNum (Fin q))])"
  by (simp add: parseAstraOptions_def parseNonNegative_def parseJsonField_def ebind_def
      get_prop_def Number_js_def isNaN_def negative_def set_prop_def truthy_def)

subsection \<open>The claims about single calls\<close>

text \<open>
  Claim C5: \<open>parseAstraOptions\<close> rejects a limit outside 1 to 1000 and a sort direction
  other than 1 or -1. The code has neither check: the limit is refused only when it is
  \<open>NaN\<close> or negative, and a sort object is stored as it comes. At the two inputs the
  claim names, and for every runtime, the parser returns the options unchanged.
\<close>

theorem parseAstraOptions_accepts_limit_2000_and_sort_2:
  "parseAstraOptions js (JObj [(''limit'', JNum (Fin 2000))])
     = Inr [(''limit'', JNum (Fin 2000))]
   \<and> parseAstraOptions js (JObj [(''sort'', JObj [(''name'', JNum (Fin 2))])])
     = Inr [(''sort'', JObj [(''name'', JNum (Fin 2))])]"
  by (simp add: parseAstraOptions_def parseNonNegative_def parseJsonField_def ebind_def
      get_prop_def Number_js_def isNaN_def negative_def set_prop_def truthy_def)

text \<open>
  Claim C6: \<open>validateQuery\<close> marks an object with the key \<open>$where\<close> invalid and attaches
  a warning to the empty filter. The code checks the shape of the root only and its
  result has no \<open>warnings\<close> field: both inputs come back valid with no message at all.
\<close>

theorem validateQuery_accepts_where_and_is_silent_on_empty:
  "validateQuery (JObj [(''$where'', JStr ''malicious code'')]) ''query''
     = \<lparr>isValid = True, errors = []\<rparr>
   \<and> validateQuery (JObj []) ''filter'' = \<lparr>isValid = True, errors = []\<rparr>"
  by (simp add: validateQuery_def typeof_object_def isArray_def)

text \<open>
  Claim C7: \<open>formatAstraResponse({insertedId: "123", acknowledged: true}, "insertOne")\<close>
  has the four fields \<open>operation\<close>, \<open>success\<close>, \<open>insertedId\<close>, \<open>acknowledged\<close> and no
  other. The code returns a fifth one, \<open>data\<close>, holding the raw result.
\<close>

theorem formatAstraResponse_insertOne_carries_data:
  "formatAstraResponse (JObj [(''insertedId'', JStr ''123''), (''acknowledged'', JBool True)])
     ''insertOne''
   = Inr (JObj [(''operation'', JStr ''insertOne''), (''success'', JBool True),
       (''data'', JObj [(''insertedId'', JStr ''123''), (''acknowledged'', JBool True)]),
       (''insertedId'', JStr ''123''), (''acknowledged'', JBool True)])"
  by (simp add: formatAstraResponse_def ebind_def get_prop_def set_prop_def)

text \<open>
  Claim C8: the identifier validator fails for a reserved word such as \<open>system\<close>. The
  code has no list of reserved words: \<open>system\<close> passes, as a keyspace and as a collection.
\<close>

theorem validateKeyspaceCollectionName_accepts_system:
  "validateKeyspaceCollectionName (JStr ''system'') ''keyspace'' = Inr ()
   \<and> validateKeyspaceCollectionName (JStr ''system'') ''collection'' = Inr ()"
  by (simp add: validateKeyspaceCollectionName_def trim_def is_space_def name_pattern_def
      is_letter_def is_word_char_def)

text \<open>
  Claim C9: \<open>sanitizeInput\<close> strips angle brackets from every string, through objects and
  arrays. The code never looks at a string: an object is returned as it is, angle
  brackets included, and an array or a string is wrapped under \<open>data\<close> untouched.
\<close>

theorem sanitizeInput_keeps_angle_brackets:
  "sanitizeInput (JObj [(''name'', JStr ''test<script>''), (''value'', JStr ''normal'')])
     = JObj [(''name'', JStr ''test<script>''), (''value'', JStr ''normal'')]
   \<and> sanitizeInput (JArr [JStr ''normal'', JStr ''test<script>''])
     = JObj [(''data'', JArr [JStr ''normal'', JStr ''test<script>''])]
   \<and> sanitizeInput (JStr ''test<script>'') = JObj [(''data'', JStr ''test<script>'')]"
  by (simp add: sanitizeInput_def typeof_object_def isArray_def)

subsection \<open>The envelope of the formatter\<close>

lemma get_prop_total: "\<not> nullish r \<Longrightarrow> \<exists>x. get_prop r k = Inr x"
  by (cases r) (auto simp: get_prop_def nullish_def split: option.splits)

lemma get_prop_nullish: "nullish r \<Longrightarrow> \<exists>m. get_prop r k = Inl (TypeError m)"
  by (auto simp: get_prop_def nullish_def)

lemma map_of_set_prop: "map_of (set_prop kvs k x) = (map_of kvs)(k \<mapsto> x)"
  by (simp add: set_prop_def update_conv')

lemma copyFields_total:
  "\<not> nullish r \<Longrightarrow>
     \<exists>kvs. copyFields r ks resp = Inr kvs \<and> (\<forall>k. k \<notin> set ks \<longrightarrow> map_of kvs k = map_of resp k)"
proof (induction ks arbitrary: resp)
  case Nil
  then show ?case by simp
next
  case (Cons k ks)
  from Cons.prems obtain x where x: "get_prop r k = Inr x"
    using get_prop_total by blast
  from Cons.IH [OF Cons.prems, of "set_prop resp k x"]
  obtain kvs where kvs: "copyFields r ks (set_prop resp k x) = Inr kvs"
    and keep: "\<forall>k'. k' \<notin> set ks \<longrightarrow> map_of kvs k' = map_of (set_prop resp k x) k'"
    by blast
  show ?case
    using x kvs keep by (auto simp: ebind_def map_of_set_prop)
qed

lemma copyFields_nullish:
  "nullish r \<Longrightarrow> \<exists>m. copyFields r (k # ks) resp = Inl (TypeError m)"
  using get_prop_nullish [of r k] by (auto simp: ebind_def)

lemma get_prop_obj: "map_of kvs k = Some x \<Longrightarrow> get_prop (JObj kvs) k = Inr x"
  by (simp add: get_prop_def)

lemma envelope_set:
  "k \<noteq> ''success'' \<Longrightarrow> k \<noteq> ''operation'' \<Longrightarrow>
     map_of (set_prop [(''operation'', JStr op), (''success'', JBool True), (''data'', r)] k x)
        ''success'' = Some (JBool True)
    \<and> map_of (set_prop [(''operation'', JStr op), (''success'', JBool True), (''data'', r)] k x)
        ''operation'' = Some (JStr op)"
  by (simp add: map_of_set_prop)

lemma envelope_plain:
  assumes "\<not> readsResultFields op"
  shows "\<exists>kvs. formatAstraResponse r op = Inr (JObj kvs)
       \<and> map_of kvs ''success'' = Some (JBool True) \<and> map_of kvs ''operation'' = Some (JStr op)"
proof -
  from assms have ne: "op \<noteq> ''insertOne''" "op \<noteq> ''insertMany''" "op \<noteq> ''updateMany''"
    "op \<noteq> ''delete''"
    by (simp_all add: readsResultFields_def)
  show ?thesis
    unfolding formatAstraResponse_def Let_def
    using ne by (simp add: envelope_set)
qed

lemma envelope_copied:
  assumes "\<not> nullish r" and "''operation'' \<notin> set ks" and "''success'' \<notin> set ks"
  shows "\<exists>kvs. map_sum id JObj (copyFields r ks
            [(''operation'', JStr op), (''success'', JBool True), (''data'', r)]) = Inr (JObj kvs)
       \<and> map_of kvs ''success'' = Some (JBool True) \<and> map_of kvs ''operation'' = Some (JStr op)"
proof -
  from copyFields_total [OF assms(1), of ks
      "[(''operation'', JStr op), (''success'', JBool True), (''data'', r)]"]
  obtain kvs where
    kvs: "copyFields r ks [(''operation'', JStr op), (''success'', JBool True), (''data'', r)] = Inr kvs"
    and keep: "\<forall>k. k \<notin> set ks \<longrightarrow> map_of kvs k =
       map_of [(''operation'', JStr op), (''success'', JBool True), (''data'', r)] k"
    by blast
  from keep assms(2,3) have "map_of kvs ''success'' = Some (JBool True)"
    and "map_of kvs ''operation'' = Some (JStr op)"
    by simp_all
  with kvs show ?thesis by simp
qed

lemma readsResultFields_cases:
  "readsResultFields op \<Longrightarrow>
     op = ''insertOne'' \<or> op = ''insertMany'' \<or> op = ''updateMany'' \<or> op = ''delete''"
  by (simp add: readsResultFields_def)

lemma envelope_reads:
  assumes "\<not> nullish r" and "readsResultFields op"
  shows "\<exists>kvs. formatAstraResponse r op = Inr (JObj kvs)
       \<and> map_of kvs ''success'' = Some (JBool True) \<and> map_of kvs ''operation'' = Some (JStr op)"
proof -
  from readsResultFields_cases [OF assms(2)]
  consider "op = ''insertOne''" | "op = ''insertMany''" | "op = ''updateMany''" | "op = ''delete''"
    by blast
  then show ?thesis
  proof cases
    case 1
    then show ?thesis
      unfolding formatAstraResponse_def Let_def
      using envelope_copied [OF assms(1), of "[''insertedId'', ''acknowledged'']" op]
      by (simp del: copyFields.simps)
  next
    case 2
    then show ?thesis
      unfolding formatAstraResponse_def Let_def
      using envelope_copied [OF assms(1),
          of "[''insertedIds'', ''insertedCount'', ''acknowledged'']" op]
      by (simp del: copyFields.simps)
  next
    case 3
    then show ?thesis
      unfolding formatAstraResponse_def Let_def
      using envelope_copied [OF assms(1),
          of "[''matchedCount'', ''modifiedCount'', ''acknowledged'']" op]
      by (simp del: copyFields.simps)
  next
    case 4
    then show ?thesis
      unfolding formatAstraResponse_def Let_def
      using envelope_copied [OF assms(1), of "[''deletedCount'', ''acknowledged'']" op]
      by (simp del: copyFields.simps)
  qed
qed

lemma envelope_throws:
  assumes "nullish r" and "readsResultFields op"
  shows "\<exists>m. formatAstraResponse r op = Inl (TypeError m)"
proof -
  have t: "\<And>k ks resp. \<exists>m. map_sum id JObj (copyFields r (k # ks) resp) = Inl (TypeError m)"
  proof -
    fix k ks resp
    from copyFields_nullish [OF assms(1), of k ks resp]
    obtain m where "copyFields r (k # ks) resp = Inl (TypeError m)" by blast
    then show "\<exists>m. map_sum id JObj (copyFields r (k # ks) resp) = Inl (TypeError m)"
      by (simp del: copyFields.simps)
  qed
  from readsResultFields_cases [OF assms(2)]
  consider "op = ''insertOne''" | "op = ''insertMany''" | "op = ''updateMany''" | "op = ''delete''"
    by blast
  then show ?thesis
  proof cases
    case 1
    then show ?thesis
      unfolding formatAstraResponse_def Let_def using t by (simp del: copyFields.simps)
  next
    case 2
    then show ?thesis
      unfolding formatAstraResponse_def Let_def using t by (simp del: copyFields.simps)
  next
    case 3
    then show ?thesis
      unfolding formatAstraResponse_def Let_def using t by (simp del: copyFields.simps)
  next
    case 4
    then show ?thesis
      unfolding formatAstraResponse_def Let_def using t by (simp del: copyFields.simps)
  qed
qed

text \<open>
  Claim C10, as stated, fails: for the raw result \<open>null\<close> and the operation
  \<open>insertOne\<close> the formatter returns no envelope, the read of \<open>result.insertedId\<close>
  throws a \<open>TypeError\<close>.
\<close>

theorem formatAstraResponse_null_insertOne_throws:
  "formatAstraResponse JNull ''insertOne''
     = Inl (TypeError (''Cannot read properties of null (reading '' @ quote ''insertedId''
         @ '')''))"
  by (simp add: formatAstraResponse_def ebind_def get_prop_def set_prop_def)

text \<open>
  Claim C10, amended: for every raw result and every operation tag, the formatter
  throws a \<open>TypeError\<close> when the result is \<open>null\<close> or \<open>undefined\<close> and the operation is
  one of \<open>insertOne\<close>, \<open>insertMany\<close>, \<open>updateMany\<close>, \<open>delete\<close>; in every other case it
  returns an envelope whose \<open>success\<close> is \<open>true\<close> and whose \<open>operation\<close> is the tag. It
  never returns an envelope that reports a failure.
\<close>

theorem formatAstraResponse_envelope:
  "if nullish r \<and> readsResultFields op
   then \<exists>m. formatAstraResponse r op = Inl (TypeError m)
   else \<exists>env. formatAstraResponse r op = Inr env
          \<and> get_prop env ''success'' = Inr (JBool True)
          \<and> get_prop env ''operation'' = Inr (JStr op)"
proof (cases "nullish r \<and> readsResultFields op")
  case True
  then show ?thesis using envelope_throws by simp
next
  case False
  then have "\<exists>kvs. formatAstraResponse r op = Inr (JObj kvs)
       \<and> map_of kvs ''success'' = Some (JBool True) \<and> map_of kvs ''operation'' = Some (JStr op)"
    using envelope_plain envelope_reads by blast
  then obtain kvs where "formatAstraResponse r op = Inr (JObj kvs)"
    and "get_prop (JObj kvs) ''success'' = Inr (JBool True)"
    and "get_prop (JObj kvs) ''operation'' = Inr (JStr op)"
    using get_prop_obj by blast
  with False show ?thesis by simp
qed

text \<open>The amended claim at \<open>null\<close> and \<open>findOne\<close>, where an envelope is returned.\<close>

theorem formatAstraResponse_envelope_witness:
  "\<exists>env. formatAstraResponse JNull ''findOne'' = Inr env
          \<and> get_prop env ''success'' = Inr (JBool True)
          \<and> get_prop env ''operation'' = Inr (JStr ''findOne'')"
  using formatAstraResponse_envelope [of JNull "''findOne''"]
  by (simp add: nullish_def readsResultFields_def)

section \<open>Properties of the handlers\<close>

lemma bindM_lift:
  "bindM (lift r) f tr = (case r of Inl e \<Rightarrow> (Inl e, tr) | Inr x \<Rightarrow> f x tr)"
  by (simp add: bindM_def lift_def split: sum.splits)

lemma bindM_requireValid:
  "bindM (requireValid q name) f tr =
     (if isValid (validateQuery q name) then f () tr
      else (Inl (NodeOperationError
              (''Invalid '' @ name @ '': '' @ join '', '' (errors (validateQuery q name)))), tr))"
  by (simp add: bindM_def requireValid_def Let_def throwM_def returnM_def)

lemma handleInsertOne_guard:
  "parseFails js h ''document'' i
   \<Longrightarrow> \<exists>e. handleInsertOne js h coll i tr = (Inl e, tr)"
  unfolding handleInsertOne_def jsonParameter_def optionsParameter_def bindM_lift
    bindM_requireValid parseFails_def optionsFail_def queryRejected_def ebind_def
  by (auto split: sum.splits)

lemma handleInsertMany_guard:
  "parseFails js h ''documents'' i \<or> optionsFail js h i
   \<Longrightarrow> \<exists>e. handleInsertMany js h coll i tr = (Inl e, tr)"
  unfolding handleInsertMany_def jsonParameter_def optionsParameter_def bindM_lift
    bindM_requireValid parseFails_def optionsFail_def queryRejected_def ebind_def
  by (auto split: sum.splits)

lemma handleFindMany_guard:
  "parseFails js h ''filter'' i \<or> optionsFail js h i \<or> queryRejected js h ''filter'' i
   \<Longrightarrow> \<exists>e. handleFindMany js h coll i tr = (Inl e, tr)"
  unfolding handleFindMany_def jsonParameter_def optionsParameter_def bindM_lift
    bindM_requireValid parseFails_def optionsFail_def queryRejected_def ebind_def
  by (auto split: sum.splits)

lemma handleFindOne_guard:
  "parseFails js h ''filter'' i \<or> optionsFail js h i \<or> queryRejected js h ''filter'' i
   \<Longrightarrow> \<exists>e. handleFindOne js h coll i tr = (Inl e, tr)"
  unfolding handleFindOne_def jsonParameter_def optionsParameter_def bindM_lift
    bindM_requireValid parseFails_def optionsFail_def queryRejected_def ebind_def
  by (auto split: sum.splits)

lemma handleUpdateMany_guard:
  "parseFails js h ''filter'' i \<or> parseFails js h ''update'' i \<or> optionsFail js h i \<or> queryRejected js h ''filter'' i \<or> queryRejected js h ''update'' i
   \<Longrightarrow> \<exists>e. handleUpdateMany js h coll i tr = (Inl e, tr)"
  unfolding handleUpdateMany_def jsonParameter_def optionsParameter_def bindM_lift
    bindM_requireValid parseFails_def optionsFail_def queryRejected_def ebind_def
  by (auto split: sum.splits)

lemma handleDelete_guard:
  "parseFails js h ''filter'' i \<or> queryRejected js h ''filter'' i
   \<Longrightarrow> \<exists>e. handleDelete js h coll i tr = (Inl e, tr)"
  unfolding handleDelete_def jsonParameter_def optionsParameter_def bindM_lift
    bindM_requireValid parseFails_def optionsFail_def queryRejected_def ebind_def
  by (auto split: sum.splits)

lemma handleFindAndUpdate_guard:
  "parseFails js h ''filter'' i \<or> parseFails js h ''update'' i \<or> optionsFail js h i \<or> queryRejected js h ''filter'' i \<or> queryRejected js h ''update'' i
   \<Longrightarrow> \<exists>e. handleFindAndUpdate js h coll i tr = (Inl e, tr)"
  unfolding handleFindAndUpdate_def jsonParameter_def optionsParameter_def bindM_lift
    bindM_requireValid parseFails_def optionsFail_def queryRejected_def ebind_def
  by (auto split: sum.splits)

lemma handleFindAndReplace_guard:
  "parseFails js h ''filter'' i \<or> parseFails js h ''replacement'' i \<or> optionsFail js h i \<or> queryRejected js h ''filter'' i \<or> queryRejected js h ''replacement'' i
   \<Longrightarrow> \<exists>e. handleFindAndReplace js h coll i tr = (Inl e, tr)"
  unfolding handleFindAndReplace_def jsonParameter_def optionsParameter_def bindM_lift
    bindM_requireValid parseFails_def optionsFail_def queryRejected_def ebind_def
  by (auto split: sum.splits)

lemma handleFindAndDelete_guard:
  "parseFails js h ''filter'' i \<or> optionsFail js h i \<or> queryRejected js h ''filter'' i
   \<Longrightarrow> \<exists>e. handleFindAndDelete js h coll i tr = (Inl e, tr)"
  unfolding handleFindAndDelete_def jsonParameter_def optionsParameter_def bindM_lift
    bindM_requireValid parseFails_def optionsFail_def queryRejected_def ebind_def
  by (auto split: sum.splits)

lemma handleEstimatedDocumentCount_guard:
  "optionsFail js h i
   \<Longrightarrow> \<exists>e. handleEstimatedDocumentCount js h coll i tr = (Inl e, tr)"
  unfolding handleEstimatedDocumentCount_def jsonParameter_def optionsParameter_def bindM_lift
    bindM_requireValid parseFails_def optionsFail_def queryRejected_def ebind_def
  by (auto split: sum.splits)

lemma known_or_unknown:
  "operation = ''insertOne'' \<or> operation = ''insertMany'' \<or> operation = ''findMany''
   \<or> operation = ''findOne'' \<or> operation = ''updateMany'' \<or> operation = ''delete''
   \<or> operation = ''findAndUpdate'' \<or> operation = ''findAndReplace''
   \<or> operation = ''findAndDelete'' \<or> operation = ''estimatedDocumentCount''
   \<or> (jsonParameters operation = [] \<and> \<not> takesOptions operation
       \<and> validatedParameters operation = [])"
  by (simp add: jsonParameters_def takesOptions_def validatedParameters_def)

lemma dispatch_guard:
  assumes "localValidationFails js h operation i"
  shows "\<exists>e. dispatch js h coll (JStr operation) i tr = (Inl e, tr)"
  using known_or_unknown [of operation]
proof (elim disjE)
  assume "operation = ''insertOne''"
  with assms show ?thesis
    using handleInsertOne_guard [of js h i coll tr]
    by (simp add: localValidationFails_def jsonParameters_def takesOptions_def
        validatedParameters_def dispatch_def)
next
  assume "operation = ''insertMany''"
  with assms show ?thesis
    using handleInsertMany_guard [of js h i coll tr]
    by (simp add: localValidationFails_def jsonParameters_def takesOptions_def
        validatedParameters_def dispatch_def)
next
  assume "operation = ''findMany''"
  with assms show ?thesis
    using handleFindMany_guard [of js h i coll tr]
    by (simp add: localValidationFails_def jsonParameters_def takesOptions_def
        validatedParameters_def dispatch_def)
next
  assume "operation = ''findOne''"
  with assms show ?thesis
    using handleFindOne_guard [of js h i coll tr]
    by (simp add: localValidationFails_def jsonParameters_def takesOptions_def
        validatedParameters_def dispatch_def)
next
  assume "operation = ''updateMany''"
  with assms show ?thesis
    using handleUpdateMany_guard [of js h i coll tr]
    by (simp add: localValidationFails_def jsonParameters_def takesOptions_def
        validatedParameters_def dispatch_def)
next
  assume "operation = ''delete''"
  with assms show ?thesis
    using handleDelete_guard [of js h i coll tr]
    by (simp add: localValidationFails_def jsonParameters_def takesOptions_def
        validatedParameters_def dispatch_def)
next
  assume "operation = ''findAndUpdate''"
  with assms show ?thesis
    using handleFindAndUpdate_guard [of js h i coll tr]
    by (simp add: localValidationFails_def jsonParameters_def takesOptions_def
        validatedParameters_def dispatch_def)
next
  assume "operation = ''findAndReplace''"
  with assms show ?thesis
    using handleFindAndReplace_guard [of js h i coll tr]
    by (simp add: localValidationFails_def jsonParameters_def takesOptions_def
        validatedParameters_def dispatch_def)
next
  assume "operation = ''findAndDelete''"
  with assms show ?thesis
    using handleFindAndDelete_guard [of js h i coll tr]
    by (simp add: localValidationFails_def jsonParameters_def takesOptions_def
        validatedParameters_def dispatch_def)
next
  assume "operation = ''estimatedDocumentCount''"
  with assms show ?thesis
    using handleEstimatedDocumentCount_guard [of js h i coll tr]
    by (simp add: localValidationFails_def jsonParameters_def takesOptions_def
        validatedParameters_def dispatch_def)
next
  assume "jsonParameters operation = [] \<and> \<not> takesOptions operation
      \<and> validatedParameters operation = []"
  with assms show ?thesis by (simp add: localValidationFails_def)
qed

text \<open>
  Claim C3: for every input item and every operation, if a local validation step of
  the item fails (parsing a JSON parameter, parsing the options, validating a query),
  the processing of the item throws and issues no call to the database client: the
  history of calls after the item is the history before it.
\<close>

theorem validation_failure_issues_no_call:
  assumes "localValidationFails js h operation i"
  shows "\<exists>e. dispatch js h coll (JStr operation) i tr = (Inl e, tr)
           \<and> processItem js h coll (JStr operation) fb i tr = (Inl e, tr)"
proof -
  from dispatch_guard [OF assms, of coll tr]
  obtain e where "dispatch js h coll (JStr operation) i tr = (Inl e, tr)"
    by blast
  then show ?thesis
    by (simp add: processItem_def bindM_def)
qed

text \<open>
  The claim at a \<open>findMany\<close> item whose filter text is \<open>[]\<close>: the filter parses, the
  query validation rejects the array, and the history stays empty.
\<close>

theorem validation_failure_issues_no_call_witness:
  "localValidationFails sampleRuntime (sampleHost ''findMany'' [''[]''] False) ''findMany'' 0
   \<and> (\<exists>e. dispatch sampleRuntime (sampleHost ''findMany'' [''[]''] False) (answering JNull)
              (JStr ''findMany'') 0 [] = (Inl e, [])
          \<and> processItem sampleRuntime (sampleHost ''findMany'' [''[]''] False) (answering JNull)
              (JStr ''findMany'') (generatePairedItemData 1 0) 0 [] = (Inl e, []))"
proof -
  have fails:
    "localValidationFails sampleRuntime (sampleHost ''findMany'' [''[]''] False) ''findMany'' 0"
    by (simp add: localValidationFails_def jsonParameters_def takesOptions_def
        validatedParameters_def parseFails_def optionsFail_def queryRejected_def
        sampleHost_def sampleRuntime_def validateQuery_def typeof_object_def isArray_def)
  from fails validation_failure_issues_no_call [OF fails, of "answering JNull" "[]"
      "generatePairedItemData 1 0"]
  show ?thesis by simp
qed

section \<open>Properties of execute\<close>

subsection \<open>The loop\<close>

lemma pushResult_paired:
  "pushResult js operation paired result = Inr records \<Longrightarrow>
     list_all (\<lambda>r. pairedItem r = paired) records"
  by (auto simp: pushResult_def ebind_def Let_def list_all_iff split: sum.splits jsvalue.splits if_splits)

text \<open>An operation other than \<open>findMany\<close> pushes one record when it pushes at all.\<close>

lemma pushResult_other_operations:
  "operation \<noteq> JStr ''findMany'' \<Longrightarrow> pushResult js operation paired result = Inr records
     \<Longrightarrow> length records = 1"
  by (auto simp: pushResult_def ebind_def split: sum.splits)

lemma processItem_paired:
  "processItem js h coll operation fb i tr = (Inr records, tr') \<Longrightarrow>
     list_all (\<lambda>r. pairedItem r = pairedAt fb i) records"
  by (auto simp: processItem_def bindM_def lift_def split: sum.splits prod.splits
      dest: pushResult_paired)

lemma itemLoop_acc:
  "itemLoop js h coll operation fb todo returnData tr =
     (case itemLoop js h coll operation fb todo [] tr of
        (eo, out, tr') \<Rightarrow> (eo, returnData @ out, tr'))"
proof (induction todo arbitrary: returnData tr)
  case Nil
  show ?case by simp
next
  case (Cons i rest)
  show ?case
  proof (cases "processItem js h coll operation fb i tr")
    case (Pair r tr')
    show ?thesis
    proof (cases r)
      case (Inl e)
      with Pair show ?thesis
        using Cons.IH [of "returnData @ [errorItem e (pairedAt fb i)]" tr']
          Cons.IH [of "[errorItem e (pairedAt fb i)]" tr']
        by (simp split: prod.splits)
    next
      case (Inr records)
      with Pair show ?thesis
        using Cons.IH [of "returnData @ records" tr'] Cons.IH [of records tr']
        by (simp split: prod.splits)
    qed
  qed
qed

lemma itemLoop_append:
  "itemLoop js h coll operation fb (pre @ post) returnData tr =
     (case itemLoop js h coll operation fb pre returnData tr of
        (None, rd1, tr1) \<Rightarrow> itemLoop js h coll operation fb post rd1 tr1
      | (Some e, rd1, tr1) \<Rightarrow> (Some e, rd1, tr1))"
proof (induction pre arbitrary: returnData tr)
  case Nil
  show ?case by simp
next
  case (Cons i rest)
  show ?case
    by (cases "processItem js h coll operation fb i tr")
      (simp add: Cons.IH split: sum.splits)
qed

lemma itemLoop_continue:
  "continueOnFail h \<Longrightarrow> fst (itemLoop js h coll operation fb todo returnData tr) = None"
proof (induction todo arbitrary: returnData tr)
  case Nil
  show ?case by simp
next
  case (Cons i rest)
  then show ?case
    by (cases "processItem js h coll operation fb i tr") (simp split: sum.splits)
qed

lemma itemLoop_paired:
  "itemLoop js h coll operation fb todo [] tr = (eo, out, tr') \<Longrightarrow>
     list_all (\<lambda>r. \<exists>j \<in> set todo. pairedItem r = pairedAt fb j) out"
proof (induction todo arbitrary: tr eo out tr')
  case Nil
  then show ?case by simp
next
  case (Cons i rest)
  obtain r tr1 where p: "processItem js h coll operation fb i tr = (r, tr1)"
    by (cases "processItem js h coll operation fb i tr")
  show ?case
  proof (cases r)
    case (Inr records)
    obtain eo2 out2 tr2 where l: "itemLoop js h coll operation fb rest [] tr1 = (eo2, out2, tr2)"
      by (cases "itemLoop js h coll operation fb rest [] tr1")
    from Cons.prems p Inr l have out: "out = records @ out2"
      using itemLoop_acc [of js h coll operation fb rest records tr1] by simp
    from processItem_paired p Inr
    have "list_all (\<lambda>r. pairedItem r = pairedAt fb i) records" by blast
    moreover from Cons.IH [OF l]
    have "list_all (\<lambda>r. \<exists>j \<in> set rest. pairedItem r = pairedAt fb j) out2" .
    ultimately show ?thesis
      unfolding out by (auto simp: list_all_iff)
  next
    case (Inl e)
    show ?thesis
    proof (cases "continueOnFail h")
      case False
      with Cons.prems p Inl show ?thesis by simp
    next
      case True
      obtain eo2 out2 tr2 where l: "itemLoop js h coll operation fb rest [] tr1 = (eo2, out2, tr2)"
        by (cases "itemLoop js h coll operation fb rest [] tr1")
      from Cons.prems p Inl l True have out: "out = errorItem e (pairedAt fb i) # out2"
        using itemLoop_acc [of js h coll operation fb rest "[errorItem e (pairedAt fb i)]" tr1]
        by simp
      from Cons.IH [OF l]
      have "list_all (\<lambda>r. \<exists>j \<in> set rest. pairedItem r = pairedAt fb j) out2" .
      then show ?thesis
        unfolding out by (auto simp: list_all_iff errorItem_def)
    qed
  qed
qed

lemma pairedAt_generate:
  "j < n \<Longrightarrow> pairedAt (generatePairedItemData n k) j = Single \<lparr>item = j, input = Some k\<rparr>"
  by (simp add: pairedAt_def generatePairedItemData_def)

lemma other_items_paired_elsewhere:
  assumes "itemLoop js h coll operation (generatePairedItemData n k) todo [] tr = (eo, out, tr')"
    and "list_all (\<lambda>j. j < n \<and> j \<noteq> i) todo"
  shows "list_all (\<lambda>r. pairedItem r \<noteq> Single \<lparr>item = i, input = Some k\<rparr>) out"
proof -
  from itemLoop_paired [OF assms(1)]
  have "list_all (\<lambda>r. \<exists>j \<in> set todo.
          pairedItem r = pairedAt (generatePairedItemData n k) j) out" .
  with assms(2) show ?thesis
    by (auto simp: list_all_iff pairedAt_generate)
qed

lemma tryBlock_opened:
  "openCollection h s credentials = Inr (operation, coll) \<Longrightarrow>
     tryBlock js h s credentials tr =
       itemLoop js h coll operation (generatePairedItemData (length (getInputData h)) 0)
         [0..<length (getInputData h)] [] tr"
  by (simp add: tryBlock_def Let_def)

lemma execute_started:
  assumes "ebind (getCredentials h) validateAstraCredentialsRaw = Inr credentials"
    and "connectAstraClient s credentials = Inr client"
  shows "execute js h s tr =
     (case tryBlock js h s credentials tr of
        (None, returnData, tr') \<Rightarrow> (Inr [returnData], tr')
      | (Some error, returnData, tr') \<Rightarrow>
          if continueOnFail h then
            (Inr [returnData @ [errorItem error (Several [\<lparr>item = 0, input = None\<rparr>])]], tr')
          else (Inl error, tr'))"
  using assms by (simp add: execute_def)

text \<open>
  Claim C2: let \<open>execute\<close> reach the loop, let the items before item \<open>i\<close> be processed
  without an error leaving the loop, and let the processing of item \<open>i\<close> fail with the
  error \<open>e\<close>. With continue-on-fail on, \<open>execute\<close> returns the records of the items
  before \<open>i\<close>, then one record \<open>{error: message}\<close> paired to item \<open>i\<close>, then exactly
  what the loop makes of the remaining items from the state the failed item left; no
  other record is paired to item \<open>i\<close>. With continue-on-fail off, \<open>execute\<close> throws
  \<open>e\<close>, and the history of calls is the one the failed item left: no later item is
  processed.
\<close>

theorem failed_item_is_recorded_or_propagated:
  assumes creds: "ebind (getCredentials h) validateAstraCredentialsRaw = Inr credentials"
    and client: "connectAstraClient s credentials = Inr client"
    and opened: "openCollection h s credentials = Inr (operation, coll)"
    and fb: "fb = generatePairedItemData (length (getInputData h)) 0"
    and i: "i < length (getInputData h)"
    and before: "itemLoop js h coll operation fb [0..<i] [] tr = (None, before, tr1)"
    and fails: "processItem js h coll operation fb i tr1 = (Inl e, tr2)"
  shows "if continueOnFail h then
           (\<exists>rest tr'.
              itemLoop js h coll operation fb [Suc i..<length (getInputData h)] [] tr2
                = (None, rest, tr')
              \<and> execute js h s tr =
                  (Inr [before @
                     \<lparr>json = JObj [(''error'', JStr (message e))],
                      pairedItem = Single \<lparr>item = i, input = Some 0\<rparr>\<rparr> # rest], tr')
              \<and> list_all (\<lambda>r. pairedItem r \<noteq> Single \<lparr>item = i, input = Some 0\<rparr>)
                  (before @ rest))
         else execute js h s tr = (Inl e, tr2)"
proof -
  let ?n = "length (getInputData h)"
  let ?loop = "itemLoop js h coll operation fb"
  have split: "[0..<?n] = [0..<i] @ i # [Suc i..<?n]"
    using i by (metis le_add1 less_imp_le_nat upt_add_eq_append upt_conv_Cons
        add_0 le_add_diff_inverse)
  have whole: "tryBlock js h s credentials tr = ?loop ([0..<i] @ i # [Suc i..<?n]) [] tr"
    using tryBlock_opened [OF opened] fb split by simp
  have paired: "pairedAt fb i = Single \<lparr>item = i, input = Some 0\<rparr>"
    using i fb by (simp add: pairedAt_generate)
  show ?thesis
  proof (cases "continueOnFail h")
    case False
    have "tryBlock js h s credentials tr = (Some e, before, tr2)"
      unfolding whole itemLoop_append using before fails False by simp
    with False show ?thesis
      by (simp add: execute_started [OF creds client])
  next
    case True
    obtain eo rest tr' where rest: "?loop [Suc i..<?n] [] tr2 = (eo, rest, tr')"
      by (cases "?loop [Suc i..<?n] [] tr2")
    from itemLoop_continue [OF True, of js coll operation fb "[Suc i..<?n]" "[]" tr2] rest
    have eo: "eo = None" by simp
    have "tryBlock js h s credentials tr =
        ?loop [Suc i..<?n] (before @ [errorItem e (pairedAt fb i)]) tr2"
      unfolding whole itemLoop_append using before fails True by simp
    also have "\<dots> = (None, (before @ [errorItem e (pairedAt fb i)]) @ rest, tr')"
      using itemLoop_acc [of js h coll operation fb "[Suc i..<?n]"
          "before @ [errorItem e (pairedAt fb i)]" tr2] rest eo
      by simp
    finally have "execute js h s tr =
        (Inr [before @ \<lparr>json = JObj [(''error'', JStr (message e))],
                         pairedItem = Single \<lparr>item = i, input = Some 0\<rparr>\<rparr> # rest], tr')"
      by (simp add: execute_started [OF creds client] errorItem_def paired)
    moreover have "list_all (\<lambda>r. pairedItem r \<noteq> Single \<lparr>item = i, input = Some 0\<rparr>) before"
      using other_items_paired_elsewhere [of js h coll operation ?n 0 "[0..<i]" tr None before
          tr1 i] before fb i
      by (simp add: list_all_iff)
    moreover have "list_all (\<lambda>r. pairedItem r \<noteq> Single \<lparr>item = i, input = Some 0\<rparr>) rest"
      using other_items_paired_elsewhere [of js h coll operation ?n 0 "[Suc i..<?n]" tr2 eo rest
          tr' i] rest fb
      by (simp add: list_all_iff)
    ultimately show ?thesis
      using True rest eo by simp
  qed
qed

text \<open>
  The claim at three \<open>findOne\<close> items of which the second has the filter text \<open>[]\<close>,
  with continue-on-fail on and off.
\<close>

theorem failed_item_is_recorded_or_propagated_witness:
  "execute sampleRuntime (sampleHost ''findOne'' [''{}'', ''[]'', ''{}''] True)
     (sampleSdk (answering JNull)) []
   = (Inr [[\<lparr>json = noMatchBody, pairedItem = Single \<lparr>item = 0, input = Some 0\<rparr>\<rparr>,
            \<lparr>json = JObj [(''error'', JStr ''Invalid filter: filter cannot be an array'')],
             pairedItem = Single \<lparr>item = 1, input = Some 0\<rparr>\<rparr>,
            \<lparr>json = noMatchBody, pairedItem = Single \<lparr>item = 2, input = Some 0\<rparr>\<rparr>]],
      [FindOne (JObj []) (JObj []), FindOne (JObj []) (JObj [])])
   \<and> execute sampleRuntime (sampleHost ''findOne'' [''{}'', ''[]'', ''{}''] False)
       (sampleSdk (answering JNull)) []
     = (Inl (NodeOperationError ''Invalid filter: filter cannot be an array''),
        [FindOne (JObj []) (JObj [])])"
proof -
  let ?js = sampleRuntime
  let ?s = "sampleSdk (answering JNull)"
  let ?c = "\<lparr>endpoint = ''https://db.example.com'', token = ''AstraCS:secret''\<rparr>"
  let ?e = "NodeOperationError ''Invalid filter: filter cannot be an array''"
  let ?r0 = "\<lparr>json = noMatchBody, pairedItem = Single \<lparr>item = 0, input = Some 0\<rparr>\<rparr>"
  let ?r2 = "\<lparr>json = noMatchBody, pairedItem = Single \<lparr>item = 2, input = Some 0\<rparr>\<rparr>"
  let ?call = "FindOne (JObj []) (JObj [])"
  have run: "\<And>cof. let h = sampleHost ''findOne'' [''{}'', ''[]'', ''{}''] cof in
      if continueOnFail h then
        (\<exists>rest tr'.
           itemLoop ?js h (answering JNull) (JStr ''findOne'')
             (generatePairedItemData (length (getInputData h)) 0)
             [Suc 1..<length (getInputData h)] [] [?call] = (None, rest, tr')
           \<and> execute ?js h ?s [] =
               (Inr [[?r0] @ \<lparr>json = JObj [(''error'', JStr (message ?e))],
                              pairedItem = Single \<lparr>item = 1, input = Some 0\<rparr>\<rparr> # rest], tr')
           \<and> list_all (\<lambda>r. pairedItem r \<noteq> Single \<lparr>item = 1, input = Some 0\<rparr>)
                 ([?r0] @ rest))
      else execute ?js h ?s [] = (Inl ?e, [?call])"
  proof -
    fix cof
    let ?h = "sampleHost ''findOne'' [''{}'', ''[]'', ''{}''] cof"
    let ?fb = "generatePairedItemData (length (getInputData ?h)) 0"
    have creds: "ebind (getCredentials ?h) validateAstraCredentialsRaw = Inr ?c"
      by (simp add: sampleHost_def ebind_def validateAstraCredentialsRaw_def get_prop_def
          trim_def is_space_def)
    have client: "connectAstraClient ?s ?c = Inr ()"
      by (simp add: connectAstraClient_def sampleSdk_def)
    have opened: "openCollection ?h ?s ?c = Inr (JStr ''findOne'', answering JNull)"
      by (simp add: openCollection_def sampleHost_def sampleSdk_def ebind_def
          validateKeyspaceCollectionName_def trim_def is_space_def name_pattern_def
          is_letter_def is_word_char_def)
    have i: "1 < length (getInputData ?h)"
      by (simp add: sampleHost_def)
    have before: "itemLoop ?js ?h (answering JNull) (JStr ''findOne'') ?fb [0..<1] [] []
        = (None, [?r0], [?call])"
      by (cases cof; code_simp)
    have fails: "processItem ?js ?h (answering JNull) (JStr ''findOne'') ?fb 1 [?call]
        = (Inl ?e, [?call])"
      by (cases cof; code_simp)
    from failed_item_is_recorded_or_propagated [OF creds client opened refl i before fails]
    show "?thesis cof"
      by (simp only: Let_def)
  qed
  have rest: "itemLoop ?js (sampleHost ''findOne'' [''{}'', ''[]'', ''{}''] True)
      (answering JNull) (JStr ''findOne'')
      (generatePairedItemData
         (length (getInputData (sampleHost ''findOne'' [''{}'', ''[]'', ''{}''] True))) 0)
      [Suc 1..<length (getInputData (sampleHost ''findOne'' [''{}'', ''[]'', ''{}''] True))]
      [] [?call] = (None, [?r2], [?call, ?call])"
    by code_simp
  have on: "continueOnFail (sampleHost ''findOne'' [''{}'', ''[]'', ''{}''] True)"
    and off: "\<not> continueOnFail (sampleHost ''findOne'' [''{}'', ''[]'', ''{}''] False)"
    by (simp_all add: sampleHost_def)
  from run [of True] on rest have
    "execute ?js (sampleHost ''findOne'' [''{}'', ''[]'', ''{}''] True) ?s []
       = (Inr [[?r0, \<lparr>json = JObj [(''error'', JStr (message ?e))],
                      pairedItem = Single \<lparr>item = 1, input = Some 0\<rparr>\<rparr>, ?r2]],
          [?call, ?call])"
    by (auto simp only: Let_def if_True prod.inject append_Cons append_Nil)
  moreover from run [of False] off have
    "execute ?js (sampleHost ''findOne'' [''{}'', ''[]'', ''{}''] False) ?s [] = (Inl ?e, [?call])"
    by (simp only: Let_def if_False)
  ultimately show ?thesis by simp
qed

subsection \<open>findOne without a match\<close>

lemma bindM_Inr: "m tr = (Inr x, tr') \<Longrightarrow> bindM m f tr = f x tr'"
  by (simp add: bindM_def)

lemma processItem_findOne_no_match:
  assumes nomatch: "\<forall>tr f opts. coll tr (FindOne f opts) = Inr JNull"
    and filter_ok: "getNodeParameter h ''filter'' i = Inr v" "JSON_parse js v = Inr q"
      "isValid (validateQuery q ''filter'')"
    and options_ok: "getNodeParameter h ''options'' i = Inr ov" "parseAstraOptions js ov = Inr opts"
  shows "processItem js h coll (JStr ''findOne'') fb i tr =
     (Inr [\<lparr>json = noMatchBody, pairedItem = pairedAt fb i\<rparr>], tr @ [FindOne q (JObj opts)])"
proof -
  have found: "findOneDocument coll q opts tr = (Inr noMatchEnvelope, tr @ [FindOne q (JObj opts)])"
    by (simp add: findOneDocument_def clientCall_def catchM_def bindM_def call_def lift_def
        nomatch formatAstraResponse_def set_prop_def noMatchEnvelope_def)
  have kept: "truthy noMatchEnvelope"
    by (simp add: truthy_def noMatchEnvelope_def)
  have handled: "handleFindOne js h coll i tr = (Inr noMatchEnvelope, tr @ [FindOne q (JObj opts)])"
    unfolding handleFindOne_def jsonParameter_def optionsParameter_def
    by (simp add: bindM_lift bindM_requireValid filter_ok options_ok ebind_def
        bindM_Inr [where m = "findOneDocument coll q opts" and tr = tr, OF found]
        returnM_def kept)
  have pushed: "pushResult js (JStr ''findOne'') (pairedAt fb i) noMatchEnvelope =
      Inr [\<lparr>json = noMatchBody, pairedItem = pairedAt fb i\<rparr>]"
    by (simp add: pushResult_def String_js_def formatAstraResponse_def set_prop_def ebind_def
        noMatchBody_def)
  show ?thesis
    by (simp add: processItem_def dispatch_def
        bindM_Inr [where m = "handleFindOne js h coll i" and tr = tr, OF handled] lift_def pushed)
qed

lemma itemLoop_findOne_no_match:
  assumes nomatch: "\<forall>tr f opts. coll tr (FindOne f opts) = Inr JNull"
    and filters: "\<forall>i \<in> set todo.
        getNodeParameter h ''filter'' i = Inr (fv i) \<and> JSON_parse js (fv i) = Inr (fq i)
        \<and> isValid (validateQuery (fq i) ''filter'')"
    and options: "\<forall>i \<in> set todo.
        getNodeParameter h ''options'' i = Inr (ov i) \<and> parseAstraOptions js (ov i) = Inr (oo i)"
  shows "itemLoop js h coll (JStr ''findOne'') fb todo returnData tr =
     (None, returnData @ map (\<lambda>i. \<lparr>json = noMatchBody, pairedItem = pairedAt fb i\<rparr>) todo,
      tr @ map (\<lambda>i. FindOne (fq i) (JObj (oo i))) todo)"
  using filters options
proof (induction todo arbitrary: returnData tr)
  case Nil
  show ?case by simp
next
  case (Cons i rest)
  have f: "getNodeParameter h ''filter'' i = Inr (fv i)" "JSON_parse js (fv i) = Inr (fq i)"
    "isValid (validateQuery (fq i) ''filter'')"
    using Cons.prems(1) by simp_all
  have o: "getNodeParameter h ''options'' i = Inr (ov i)" "parseAstraOptions js (ov i) = Inr (oo i)"
    using Cons.prems(2) by simp_all
  have step: "processItem js h coll (JStr ''findOne'') fb i tr =
      (Inr [\<lparr>json = noMatchBody, pairedItem = pairedAt fb i\<rparr>],
       tr @ [FindOne (fq i) (JObj (oo i))])"
    using processItem_findOne_no_match [OF nomatch f o] .
  have rest: "\<And>rd t. itemLoop js h coll (JStr ''findOne'') fb rest rd t =
      (None, rd @ map (\<lambda>i. \<lparr>json = noMatchBody, pairedItem = pairedAt fb i\<rparr>) rest,
       t @ map (\<lambda>i. FindOne (fq i) (JObj (oo i))) rest)"
    using Cons.IH Cons.prems by simp
  show ?case
    by (simp add: step rest)
qed

lemma noMatchBody_fields:
  "get_prop noMatchBody ''operation'' = Inr (JStr ''findOne'')
   \<and> get_prop noMatchBody ''success'' = Inr (JBool True) \<and> noMatchBody \<noteq> JObj []"
  by (simp add: noMatchBody_def get_prop_def)

text \<open>
  Claim C4, amended: when every input item requests \<open>findOne\<close>, every filter passes
  validation and the client's \<open>findOne\<close> answers \<open>null\<close>, \<open>execute\<close> throws nothing and
  returns exactly one record per input item, in order, each paired to its item and each
  with a response envelope as body, whose \<open>operation\<close> is \<open>findOne\<close> and whose
  \<open>success\<close> is \<open>true\<close>. This holds with continue-on-fail on or off.
\<close>

theorem findOne_no_match_one_envelope_per_item:
  assumes creds: "ebind (getCredentials h) validateAstraCredentialsRaw = Inr credentials"
    and client: "connectAstraClient s credentials = Inr client"
    and opened: "openCollection h s credentials = Inr (JStr ''findOne'', coll)"
    and nomatch: "\<forall>tr f opts. coll tr (FindOne f opts) = Inr JNull"
    and filters: "\<forall>i < length (getInputData h).
        getNodeParameter h ''filter'' i = Inr (fv i) \<and> JSON_parse js (fv i) = Inr (fq i)
        \<and> isValid (validateQuery (fq i) ''filter'')"
    and options: "\<forall>i < length (getInputData h).
        getNodeParameter h ''options'' i = Inr (ov i) \<and> parseAstraOptions js (ov i) = Inr (oo i)"
  shows "\<exists>body tr'.
     execute js h s tr =
       (Inr [map (\<lambda>i. \<lparr>json = body, pairedItem = Single \<lparr>item = i, input = Some 0\<rparr>\<rparr>)
               [0..<length (getInputData h)]], tr')
     \<and> get_prop body ''operation'' = Inr (JStr ''findOne'')
     \<and> get_prop body ''success'' = Inr (JBool True)"
proof -
  let ?n = "length (getInputData h)"
  let ?fb = "generatePairedItemData ?n 0"
  have f: "\<forall>i \<in> set [0..<?n].
      getNodeParameter h ''filter'' i = Inr (fv i) \<and> JSON_parse js (fv i) = Inr (fq i)
      \<and> isValid (validateQuery (fq i) ''filter'')"
    using filters by simp
  have o: "\<forall>i \<in> set [0..<?n].
      getNodeParameter h ''options'' i = Inr (ov i) \<and> parseAstraOptions js (ov i) = Inr (oo i)"
    using options by simp
  have loop: "itemLoop js h coll (JStr ''findOne'') ?fb [0..<?n] [] tr =
      (None, [] @ map (\<lambda>i. \<lparr>json = noMatchBody, pairedItem = pairedAt ?fb i\<rparr>) [0..<?n],
       tr @ map (\<lambda>i. FindOne (fq i) (JObj (oo i))) [0..<?n])"
    using itemLoop_findOne_no_match [OF nomatch f o] .
  have links: "map (\<lambda>i. \<lparr>json = noMatchBody, pairedItem = pairedAt ?fb i\<rparr>) [0..<?n] =
      map (\<lambda>i. \<lparr>json = noMatchBody, pairedItem = Single \<lparr>item = i, input = Some 0\<rparr>\<rparr>) [0..<?n]"
    by (simp add: pairedAt_generate)
  have "execute js h s tr =
      (Inr [map (\<lambda>i. \<lparr>json = noMatchBody, pairedItem = Single \<lparr>item = i, input = Some 0\<rparr>\<rparr>)
              [0..<?n]], tr @ map (\<lambda>i. FindOne (fq i) (JObj (oo i))) [0..<?n])"
    using loop links
    by (simp add: execute_started [OF creds client] tryBlock_opened [OF opened])
  with noMatchBody_fields show ?thesis by blast
qed

text \<open>The amended claim at three items with the filter text \<open>{}\<close>.\<close>

theorem findOne_no_match_one_envelope_per_item_witness:
  "\<exists>body tr'.
     execute sampleRuntime (sampleHost ''findOne'' (replicate 3 ''{}'') False)
       (sampleSdk (answering JNull)) []
     = (Inr [map (\<lambda>i. \<lparr>json = body, pairedItem = Single \<lparr>item = i, input = Some 0\<rparr>\<rparr>)
               [0..<3]], tr')
     \<and> get_prop body ''operation'' = Inr (JStr ''findOne'')
     \<and> get_prop body ''success'' = Inr (JBool True)"
proof -
  let ?h = "sampleHost ''findOne'' (replicate 3 ''{}'') False"
  let ?s = "sampleSdk (answering JNull)"
  let ?c = "\<lparr>endpoint = ''https://db.example.com'', token = ''AstraCS:secret''\<rparr>"
  have creds: "ebind (getCredentials ?h) validateAstraCredentialsRaw = Inr ?c"
    by (simp add: sampleHost_def ebind_def validateAstraCredentialsRaw_def get_prop_def
        trim_def is_space_def)
  have client: "connectAstraClient ?s ?c = Inr ()"
    by (simp add: connectAstraClient_def sampleSdk_def)
  have opened: "openCollection ?h ?s ?c = Inr (JStr ''findOne'', answering JNull)"
    by (simp add: openCollection_def sampleHost_def sampleSdk_def ebind_def
        validateKeyspaceCollectionName_def trim_def is_space_def name_pattern_def
        is_letter_def is_word_char_def)
  have nomatch: "\<forall>tr f opts. answering JNull tr (FindOne f opts) = Inr JNull"
    by (simp add: answering_def)
  have filters: "\<forall>i < length (getInputData ?h).
      getNodeParameter ?h ''filter'' i = Inr (JStr ''{}'')
      \<and> JSON_parse sampleRuntime (JStr ''{}'') = Inr (JObj [])
      \<and> isValid (validateQuery (JObj []) ''filter'')"
    by (simp add: sampleHost_def sampleRuntime_def validateQuery_def typeof_object_def
        isArray_def)
  have options: "\<forall>i < length (getInputData ?h).
      getNodeParameter ?h ''options'' i = Inr (JObj [])
      \<and> parseAstraOptions sampleRuntime (JObj []) = Inr []"
    by (simp add: sampleHost_def parseAstraOptions_def parseNonNegative_def parseJsonField_def
        ebind_def get_prop_def truthy_def)
  have n: "length (getInputData ?h) = 3"
    by (simp add: sampleHost_def)
  from findOne_no_match_one_envelope_per_item [OF creds client opened nomatch filters options,
      of "[]"]
  show ?thesis
    unfolding n .
qed

text \<open>
  Claim C4, as stated, fails: at three \<open>findOne\<close> items without a match the body of
  each record is the envelope \<open>noMatchBody\<close>, not the empty object.
\<close>

theorem findOne_no_match_body_is_not_empty:
  "execute sampleRuntime (sampleHost ''findOne'' [''{}'', ''{}'', ''{}''] False)
     (sampleSdk (answering JNull)) []
   = (Inr [[\<lparr>json = noMatchBody, pairedItem = Single \<lparr>item = 0, input = Some 0\<rparr>\<rparr>,
            \<lparr>json = noMatchBody, pairedItem = Single \<lparr>item = 1, input = Some 0\<rparr>\<rparr>,
            \<lparr>json = noMatchBody, pairedItem = Single \<lparr>item = 2, input = Some 0\<rparr>\<rparr>]],
      [FindOne (JObj []) (JObj []), FindOne (JObj []) (JObj []), FindOne (JObj []) (JObj [])])
   \<and> noMatchBody \<noteq> JObj []"
  by code_simp

subsection \<open>The fan-out of findMany\<close>

text \<open>
  Whatever the client's \<open>find\<close> answers, \<open>findDocuments\<close> wraps it into an envelope, the
  envelope has no \<open>documents\<close> field and is not an array, and the loop body pushes this
  one envelope.
\<close>

lemma processItem_findMany_one_record:
  assumes found: "coll tr (Find q (JObj opts)) = Inr r"
    and filter_ok: "getNodeParameter h ''filter'' i = Inr v" "JSON_parse js v = Inr q"
      "isValid (validateQuery q ''filter'')"
    and options_ok: "getNodeParameter h ''options'' i = Inr ov" "parseAstraOptions js ov = Inr opts"
  shows "processItem js h coll (JStr ''findMany'') fb i tr =
     (Inr [\<lparr>json = JObj [(''operation'', JStr ''findMany''), (''success'', JBool True),
                        (''data'', r)],
            pairedItem = pairedAt fb i\<rparr>],
      tr @ [Find q (JObj opts)])"
proof -
  let ?env = "JObj [(''operation'', JStr ''findMany''), (''success'', JBool True), (''data'', r)]"
  have answered: "findDocuments coll q opts tr = (Inr ?env, tr @ [Find q (JObj opts)])"
    by (simp add: findDocuments_def clientCall_def catchM_def bindM_def call_def lift_def
        found formatAstraResponse_def set_prop_def)
  have handled: "handleFindMany js h coll i tr = (Inr ?env, tr @ [Find q (JObj opts)])"
    unfolding handleFindMany_def jsonParameter_def optionsParameter_def
    by (simp add: bindM_lift bindM_requireValid filter_ok options_ok ebind_def answered)
  have pushed: "pushResult js (JStr ''findMany'') (pairedAt fb i) ?env =
      Inr [\<lparr>json = ?env, pairedItem = pairedAt fb i\<rparr>]"
    by (simp add: pushResult_def get_prop_def ebind_def truthy_def sanitizeInput_def
        typeof_object_def isArray_def)
  show ?thesis
    by (simp add: processItem_def dispatch_def
        bindM_Inr [where m = "handleFindMany js h coll i" and tr = tr, OF handled]
        lift_def pushed)
qed

text \<open>
  Claim C1: a \<open>findMany\<close> result fans out into one output record per document returned
  by the client. On the code it does not: for one input item and a client that answers
  \<open>find\<close> with two documents, \<open>execute\<close> returns a single record, whose body is the
  envelope holding both documents under \<open>data\<close>.
\<close>

theorem findMany_two_documents_one_record:
  "execute sampleRuntime (sampleHost ''findMany'' [''{}''] False)
     (sampleSdk (answering (JArr [JObj [(''name'', JStr ''a'')], JObj [(''name'', JStr ''b'')]])))
     []
   = (Inr [[\<lparr>json = JObj [(''operation'', JStr ''findMany''), (''success'', JBool True),
               (''data'', JArr [JObj [(''name'', JStr ''a'')], JObj [(''name'', JStr ''b'')]])],
             pairedItem = Single \<lparr>item = 0, input = Some 0\<rparr>\<rparr>]],
      [Find (JObj []) (JObj [])])"
  by code_simp

end
